theory Spec2Isabelle
  imports Complex_Main "HOL-Library.Word"
begin

unbundle bit_operations_syntax

section \<open>The Go backend of mobart: request publisher and completion listener\<close>

text \<open>
  This theory embeds \<^verbatim>\<open>integration_example.go\<close>: the two message structs,
  \<^verbatim>\<open>PublishImageGenerationRequest\<close>, \<^verbatim>\<open>StartCompletionListener\<close> and
  \<^verbatim>\<open>UpdateGeneratedContentWithImage\<close>. The program talks to three libraries
  (\<^verbatim>\<open>encoding/json\<close>, \<^verbatim>\<open>google/uuid\<close>, \<^verbatim>\<open>go-redis\<close>); the part of
  each that the program relies on is written out below, following the libraries'
  documented behaviour.

  A Go \<^verbatim>\<open>string\<close> is a sequence of bytes, here a \<^typ>\<open>string\<close> whose characters are
  the bytes. Effects are explicit: every function that logs, reads randomness or
  publishes takes the \<open>world\<close> and returns the new one.
\<close>

subsection \<open>Strings: UTF-8 as \<^verbatim>\<open>unicode/utf8\<close> reads it\<close>

text \<open>
  \<open>rune_size s\<close> is the width in bytes of the well-formed UTF-8 encoding at the head
  of \<open>s\<close>, and \<open>0\<close> where \<^verbatim>\<open>utf8.DecodeRuneInString\<close> answers
  \<^verbatim>\<open>(RuneError, 1)\<close>: a stray continuation byte, an overlong form, a surrogate, a
  value beyond U+10FFFF or a truncated sequence.
\<close>

definition cont :: "nat \<Rightarrow> nat \<Rightarrow> char \<Rightarrow> bool" where
  "cont lo hi c = (lo \<le> of_char c \<and> (of_char c :: nat) \<le> hi)"

fun rune_size :: "string \<Rightarrow> nat" where
  "rune_size [] = 0"
| "rune_size (c # cs) =
     (let b = of_char c :: nat in
      if b < 0x80 then 1
      else if b < 0xC2 then 0
      else if b < 0xE0 then
        (case cs of c1 # _ \<Rightarrow> if cont 0x80 0xBF c1 then 2 else 0 | _ \<Rightarrow> 0)
      else if b < 0xF0 then
        (case cs of
           c1 # c2 # _ \<Rightarrow>
             if cont (if b = 0xE0 then 0xA0 else 0x80) (if b = 0xED then 0x9F else 0xBF) c1
                \<and> cont 0x80 0xBF c2 then 3 else 0
         | _ \<Rightarrow> 0)
      else if b < 0xF5 then
        (case cs of
           c1 # c2 # c3 # _ \<Rightarrow>
             if cont (if b = 0xF0 then 0x90 else 0x80) (if b = 0xF4 then 0x8F else 0xBF) c1
                \<and> cont 0x80 0xBF c2 \<and> cont 0x80 0xBF c3 then 4 else 0
         | _ \<Rightarrow> 0)
      else 0)"

text \<open>The bytes of U+FFFD, the replacement character.\<close>

definition RuneError :: string where
  "RuneError = [CHR 0xEF, CHR 0xBF, CHR 0xBD]"

text \<open>
  \<^verbatim>\<open>encoding/json\<close> writes a Go string as a JSON string "coerced to valid UTF-8,
  replacing invalid bytes with the Unicode replacement rune": its encoder walks the
  string, copies every well-formed rune and writes U+FFFD for each byte that starts
  none. The first argument counts the bytes of the current rune still to be copied.
\<close>

fun coerce_from :: "nat \<Rightarrow> string \<Rightarrow> string" where
  "coerce_from k [] = []"
| "coerce_from k (c # cs) =
     (if 0 < k then c # coerce_from (k - 1) cs
      else (case rune_size (c # cs) of
              0 \<Rightarrow> RuneError @ coerce_from 0 cs
            | Suc n \<Rightarrow> c # coerce_from n cs))"

definition utf8_coerce :: "string \<Rightarrow> string" where
  "utf8_coerce s = coerce_from 0 s"

text \<open>\<^verbatim>\<open>utf8.ValidString\<close>: every byte belongs to a well-formed rune.\<close>

fun valid_from :: "nat \<Rightarrow> string \<Rightarrow> bool" where
  "valid_from k [] = True"
| "valid_from k (c # cs) =
     (if 0 < k then valid_from (k - 1) cs
      else (case rune_size (c # cs) of
              0 \<Rightarrow> False
            | Suc n \<Rightarrow> valid_from n cs))"

definition ValidString :: "string \<Rightarrow> bool" where
  "ValidString s = valid_from 0 s"

subsection \<open>JSON documents\<close>

text \<open>
  A payload travels as bytes. The model keeps what \<^verbatim>\<open>encoding/json\<close>'s scanner
  makes of the bytes: either they are not one well-formed JSON text (\<open>NotJSON\<close>), or
  they are a document (\<open>JSON v\<close>). An object keeps its members in the order of the
  text, duplicates included. A number carries its literal and the \<^verbatim>\<open>float64\<close> that
  \<^verbatim>\<open>strconv.ParseFloat\<close> reads from the literal, \<open>None\<close> when the literal is out
  of range. Every finite \<^verbatim>\<open>float64\<close> is a rational; the program never computes
  with one.
\<close>

type_synonym float64 = rat

datatype json =
    JNull
  | JBool bool
  | JNumber string "float64 option"
  | JString string
  | JArray "json list"
  | JObject "(string \<times> json) list"

datatype payload = NotJSON | JSON json

datatype error =
    SyntaxError
  | UnmarshalTypeError string string
  | RedisError string
  | DatabaseError string

subsection \<open>The message structs\<close>

record ImageGenerationRequest =
  req_RequestID :: string
  req_UserID :: string
  req_Prompt :: string

record ImageGenerationCompletion =
  RequestID :: string
  UserID :: string
  Status :: string
  S3Key :: string
  S3URL :: string
  GenerationTimeSeconds :: float64
  Error :: string
  Timestamp :: string

subsection \<open>\<^verbatim>\<open>json.Marshal\<close> of an \<^verbatim>\<open>ImageGenerationRequest\<close>\<close>

text \<open>
  The struct's tags name the members; the members come in the order of the fields. A
  struct of three strings always encodes, so the error branch of the signature is
  never taken.
\<close>

definition json_Marshal :: "ImageGenerationRequest \<Rightarrow> error + payload" where
  "json_Marshal request =
     Inr (JSON (JObject
       [(''request_id'', JString (utf8_coerce (req_RequestID request))),
        (''user_id'', JString (utf8_coerce (req_UserID request))),
        (''prompt'', JString (utf8_coerce (req_Prompt request)))]))"

subsection \<open>\<^verbatim>\<open>json.Unmarshal\<close> into an \<^verbatim>\<open>ImageGenerationCompletion\<close>\<close>

datatype field =
    FRequestID | FUserID | FStatus | FS3Key | FS3URL
  | FGenerationTimeSeconds | FError | FTimestamp

fun json_name :: "field \<Rightarrow> string" where
  "json_name FRequestID = ''request_id''"
| "json_name FUserID = ''user_id''"
| "json_name FStatus = ''status''"
| "json_name FS3Key = ''s3_key''"
| "json_name FS3URL = ''s3_url''"
| "json_name FGenerationTimeSeconds = ''generation_time_seconds''"
| "json_name FError = ''error''"
| "json_name FTimestamp = ''timestamp''"

definition completion_fields :: "field list" where
  "completion_fields = [FRequestID, FUserID, FStatus, FS3Key, FS3URL,
                        FGenerationTimeSeconds, FError, FTimestamp]"

text \<open>
  \<^verbatim>\<open>Unmarshal\<close> matches an incoming key with a field "preferring an exact match but
  also accepting a case-insensitive match". The case-insensitive match compares
  folded names: \<^verbatim>\<open>foldName\<close> maps every rune to the least rune of its simple-folding
  orbit. For ASCII that is the upper-case letter; the only other runes that fold
  into ASCII are U+017F (long s, bytes C5 BF) and U+212A (the Kelvin sign, bytes
  E2 84 AA). Every other rune folds to a rune outside ASCII, so it is left as it
  is here: the folded name is only ever compared with the folded names of the
  eight fields, which are ASCII.
\<close>

fun foldName :: "string \<Rightarrow> string" where
  "foldName [] = []"
| "foldName (c # cs) =
     (let b = of_char c :: nat in
      if 0x61 \<le> b \<and> b \<le> 0x7A then char_of (b - 0x20) # foldName cs
      else if c = CHR 0xC5 then
        (case cs of
           c1 # cs' \<Rightarrow> if c1 = CHR 0xBF then CHR ''S'' # foldName cs' else c # foldName cs
         | [] \<Rightarrow> [c])
      else if c = CHR 0xE2 then
        (case cs of
           c1 # c2 # cs' \<Rightarrow>
             if c1 = CHR 0x84 \<and> c2 = CHR 0xAA then CHR ''K'' # foldName cs'
             else c # foldName cs
         | _ \<Rightarrow> c # foldName cs)
      else c # foldName cs)"

definition find_field :: "string \<Rightarrow> field option" where
  "find_field key =
     (case find (\<lambda>f. json_name f = key) completion_fields of
        Some f \<Rightarrow> Some f
      | None \<Rightarrow> find (\<lambda>f. foldName (json_name f) = foldName key) completion_fields)"

definition set_string :: "field \<Rightarrow> string \<Rightarrow> ImageGenerationCompletion \<Rightarrow> ImageGenerationCompletion" where
  "set_string f s c =
     (case f of
        FRequestID \<Rightarrow> c\<lparr>RequestID := s\<rparr>
      | FUserID \<Rightarrow> c\<lparr>UserID := s\<rparr>
      | FStatus \<Rightarrow> c\<lparr>Status := s\<rparr>
      | FS3Key \<Rightarrow> c\<lparr>S3Key := s\<rparr>
      | FS3URL \<Rightarrow> c\<lparr>S3URL := s\<rparr>
      | FGenerationTimeSeconds \<Rightarrow> c
      | FError \<Rightarrow> c\<lparr>Error := s\<rparr>
      | FTimestamp \<Rightarrow> c\<lparr>Timestamp := s\<rparr>)"

text \<open>
  Storing one member: \<^verbatim>\<open>null\<close> leaves the field as it is; a string goes into a
  string field and a number in range into the \<^verbatim>\<open>float64\<close> field; anything else is
  an \<^verbatim>\<open>UnmarshalTypeError\<close> naming the JSON kind and the field, and the field is
  left as it is. For a number out of range the error names the literal too
  (\<^verbatim>\<open>"number " + literal\<close>).
\<close>

definition store :: "field \<Rightarrow> json \<Rightarrow> ImageGenerationCompletion \<Rightarrow> error option \<times> ImageGenerationCompletion" where
  "store f v c =
     (case v of
        JNull \<Rightarrow> (None, c)
      | JString s \<Rightarrow>
          (if f = FGenerationTimeSeconds
           then (Some (UnmarshalTypeError ''string'' (json_name f)), c)
           else (None, set_string f s c))
      | JNumber literal n \<Rightarrow>
          (if f = FGenerationTimeSeconds then
             (case n of
                Some x \<Rightarrow> (None, c\<lparr>GenerationTimeSeconds := x\<rparr>)
              | None \<Rightarrow> (Some (UnmarshalTypeError (''number '' @ literal) (json_name f)), c))
           else (Some (UnmarshalTypeError ''number'' (json_name f)), c))
      | JBool b \<Rightarrow> (Some (UnmarshalTypeError ''bool'' (json_name f)), c)
      | JArray xs \<Rightarrow> (Some (UnmarshalTypeError ''array'' (json_name f)), c)
      | JObject kvs \<Rightarrow> (Some (UnmarshalTypeError ''object'' (json_name f)), c))"

text \<open>
  The members are taken in order; a key that matches no field is skipped with its
  value. The decoder saves the first type error and goes on, and reports the saved
  error at the end.
\<close>

fun decode_object :: "(string \<times> json) list \<Rightarrow> error option \<times> ImageGenerationCompletion
    \<Rightarrow> error option \<times> ImageGenerationCompletion" where
  "decode_object [] acc = acc"
| "decode_object ((key, v) # kvs) (saved, c) =
     (case find_field key of
        None \<Rightarrow> decode_object kvs (saved, c)
      | Some f \<Rightarrow>
          (case store f v c of
             (e, c') \<Rightarrow>
               decode_object kvs ((case saved of None \<Rightarrow> e | Some s \<Rightarrow> Some s), c')))"

text \<open>The zero value of the struct: what \<^verbatim>\<open>var completion ImageGenerationCompletion\<close> holds.\<close>

definition zero_completion :: ImageGenerationCompletion where
  "zero_completion =
     \<lparr>RequestID = [], UserID = [], Status = [], S3Key = [], S3URL = [],
      GenerationTimeSeconds = 0, Error = [], Timestamp = []\<rparr>"

text \<open>
  \<^verbatim>\<open>json.Unmarshal(data, &completion)\<close> on a fresh \<open>completion\<close>: a syntax error before
  anything is stored; \<^verbatim>\<open>null\<close> stores nothing and is no error; an object is decoded
  member by member; any other document is a type error.
\<close>

definition json_Unmarshal :: "payload \<Rightarrow> error + ImageGenerationCompletion" where
  "json_Unmarshal data =
     (case data of
        NotJSON \<Rightarrow> Inl SyntaxError
      | JSON v \<Rightarrow>
          (case v of
             JNull \<Rightarrow> Inr zero_completion
           | JObject kvs \<Rightarrow>
               (case decode_object kvs (None, zero_completion) of
                  (None, c) \<Rightarrow> Inr c
                | (Some e, c) \<Rightarrow> Inl e)
           | JString s \<Rightarrow> Inl (UnmarshalTypeError ''string'' [])
           | JNumber literal n \<Rightarrow> Inl (UnmarshalTypeError ''number'' [])
           | JBool b \<Rightarrow> Inl (UnmarshalTypeError ''bool'' [])
           | JArray xs \<Rightarrow> Inl (UnmarshalTypeError ''array'' [])))"

subsection \<open>\<^verbatim>\<open>google/uuid\<close>: random identifiers and their text\<close>

text \<open>
  A \<^verbatim>\<open>UUID\<close> is a \<^verbatim>\<open>[16]byte\<close>, here the function from the indices \<open>0..15\<close> to the
  bytes. \<^verbatim>\<open>NewRandomFromReader\<close> fills it from the random source and stamps the
  version and the variant; \<^verbatim>\<open>String\<close> writes the 36 characters
  \<^verbatim>\<open>xxxxxxxx-xxxx-xxxx-xxxx-xxxxxxxxxxxx\<close> in lower-case hexadecimal.
\<close>

type_synonym UUID = "nat \<Rightarrow> 8 word"

definition NewRandomFromReader :: "UUID \<Rightarrow> UUID" where
  "NewRandomFromReader bytes =
     (let uuid = bytes;
          uuid = uuid(6 := (uuid 6 AND 0x0f) OR 0x40);
          uuid = uuid(8 := (uuid 8 AND 0x3f) OR 0x80)
      in uuid)"

definition hextable :: string where
  "hextable = ''0123456789abcdef''"

definition hex_Encode :: "8 word list \<Rightarrow> string" where
  "hex_Encode src =
     concat (map (\<lambda>v. [hextable ! unat (drop_bit 4 v), hextable ! unat (v AND 0x0f)]) src)"

definition uuid_String :: "UUID \<Rightarrow> string" where
  "uuid_String uuid =
     hex_Encode (map uuid [0..<4]) @ ''-'' @
     hex_Encode (map uuid [4..<6]) @ ''-'' @
     hex_Encode (map uuid [6..<8]) @ ''-'' @
     hex_Encode (map uuid [8..<10]) @ ''-'' @
     hex_Encode (map uuid [10..<16])"

subsection \<open>The world: random source, message bus, log\<close>

text \<open>
  One constructor per \<^verbatim>\<open>log.Printf\<close>/\<^verbatim>\<open>log.Println\<close> call of the program, with the
  values the format string prints.
\<close>

datatype log_entry =
    PublishedRequest string
  | Listening
  | FailedToParse error
  | ReceivedCompletion string string
  | FailedToUpdateDatabase error
  | UpdatedDatabase string
  | GenerationFailed string string
  | UpdatingDatabase string string string

text \<open>
  \<open>rander w n\<close> are the sixteen bytes of the \<open>n\<close>-th read from \<^verbatim>\<open>crypto/rand\<close>,
  \<open>reads w\<close> counts the reads made. \<open>redis_err w\<close> is what a publish meets: \<open>None\<close>
  when the bus takes the message, the transport's error otherwise. \<open>published w\<close>
  are the messages the bus has taken, with their channels.
\<close>

record world =
  rander :: "nat \<Rightarrow> UUID"
  reads :: nat
  redis_err :: "error option"
  published :: "(string \<times> payload) list"
  logs :: "log_entry list"

definition log_Printf :: "log_entry \<Rightarrow> world \<Rightarrow> world" where
  "log_Printf e w = w\<lparr>logs := logs w @ [e]\<rparr>"

definition uuid_New :: "world \<Rightarrow> UUID \<times> world" where
  "uuid_New w = (NewRandomFromReader (rander w (reads w)), w\<lparr>reads := Suc (reads w)\<rparr>)"

definition rdb_Publish :: "string \<Rightarrow> payload \<Rightarrow> world \<Rightarrow> error option \<times> world" where
  "rdb_Publish channel message w =
     (case redis_err w of
        Some err \<Rightarrow> (Some err, w)
      | None \<Rightarrow> (None, w\<lparr>published := published w @ [(channel, message)]\<rparr>))"

text \<open>
  A subscription delivers, of everything that arrives on the bus, the payloads of
  its channel, in order.
\<close>

definition rdb_Subscribe :: "string \<Rightarrow> (string \<times> payload) list \<Rightarrow> payload list" where
  "rdb_Subscribe channel arrivals = map snd (filter (\<lambda>m. fst m = channel) arrivals)"

subsection \<open>\<^verbatim>\<open>PublishImageGenerationRequest\<close>\<close>

definition PublishImageGenerationRequest ::
    "string \<Rightarrow> string \<Rightarrow> world \<Rightarrow> (string \<times> error option) \<times> world" where
  "PublishImageGenerationRequest userID prompt w =
     (case uuid_New w of
        (uuid, w1) \<Rightarrow>
          (let requestID = uuid_String uuid;
               request = \<lparr>req_RequestID = requestID, req_UserID = userID, req_Prompt = prompt\<rparr>
           in case json_Marshal request of
                Inl err \<Rightarrow> (([], Some err), w1)
              | Inr jsonData \<Rightarrow>
                  (case rdb_Publish ''image_generation_requests'' jsonData w1 of
                     (Some err, w2) \<Rightarrow> (([], Some err), w2)
                   | (None, w2) \<Rightarrow>
                       ((requestID, None), log_Printf (PublishedRequest requestID) w2))))"

subsection \<open>\<^verbatim>\<open>UpdateGeneratedContentWithImage\<close> and \<^verbatim>\<open>StartCompletionListener\<close>\<close>

text \<open>
  The database update of the source logs its arguments and returns \<^verbatim>\<open>nil\<close>; the
  database logic itself is left to the integrator
  (\<^verbatim>\<open>// Your database update logic here\<close>).
\<close>

type_synonym updater = "string \<Rightarrow> string \<Rightarrow> string \<Rightarrow> world \<Rightarrow> error option \<times> world"

definition UpdateGeneratedContentWithImage :: updater where
  "UpdateGeneratedContentWithImage requestID s3Key s3URL w =
     (None, log_Printf (UpdatingDatabase requestID s3Key s3URL) w)"

text \<open>
  The body of the listener's loop, for one message. The database update is a
  parameter, so that an update that fails can be put in the place the source
  leaves open.
\<close>

definition handle_message :: "updater \<Rightarrow> payload \<Rightarrow> world \<Rightarrow> world" where
  "handle_message update msg w =
     (case json_Unmarshal msg of
        Inl err \<Rightarrow> log_Printf (FailedToParse err) w
      | Inr completion \<Rightarrow>
          (let w1 = log_Printf (ReceivedCompletion (RequestID completion) (Status completion)) w
           in if Status completion = ''completed'' then
                (case update (RequestID completion) (S3Key completion) (S3URL completion) w1 of
                   (Some err, w2) \<Rightarrow> log_Printf (FailedToUpdateDatabase err) w2
                 | (None, w2) \<Rightarrow> log_Printf (UpdatedDatabase (RequestID completion)) w2)
              else if Status completion = ''failed'' then
                log_Printf (GenerationFailed (RequestID completion) (Error completion)) w1
              else w1))"

text \<open>
  \<^verbatim>\<open>for msg := range pubsub.Channel()\<close>: the loop takes the delivered messages one
  by one and ends when the channel is closed, that is at the end of the list.
\<close>

fun listen_loop :: "updater \<Rightarrow> payload list \<Rightarrow> world \<Rightarrow> world" where
  "listen_loop update [] w = w"
| "listen_loop update (msg # msgs) w = listen_loop update msgs (handle_message update msg w)"

definition StartCompletionListenerWith :: "updater \<Rightarrow> (string \<times> payload) list \<Rightarrow> world \<Rightarrow> world" where
  "StartCompletionListenerWith update arrivals w =
     listen_loop update (rdb_Subscribe ''image_generation_complete'' arrivals)
       (log_Printf Listening w)"

definition StartCompletionListener :: "(string \<times> payload) list \<Rightarrow> world \<Rightarrow> world" where
  "StartCompletionListener = StartCompletionListenerWith UpdateGeneratedContentWithImage"

text \<open>The calls of the database update that a log records, with their arguments.\<close>

fun db_updates :: "log_entry list \<Rightarrow> (string \<times> string \<times> string) list" where
  "db_updates [] = []"
| "db_updates (UpdatingDatabase requestID s3Key s3URL # es) =
     (requestID, s3Key, s3URL) # db_updates es"
| "db_updates (e # es) = db_updates es"

subsection \<open>The worker's side of the request codec\<close>

text \<open>
  Modelled from the spec: \<open>decode_request\<close>, the decoder of request messages. It runs
  in the Python worker, which is not among the sources. Section 4.2 of the
  specification: \<^emph>\<open>decode(bytes) -> GenerationRequest, fails with
  MalformedMessageError when required fields are missing or of wrong type\<close>;
  \<^emph>\<open>unknown additional fields in decoded input are ignored\<close>; \<^emph>\<open>decoding must
  reject messages whose request_id is empty or whose prompt fails its domain
  constraint\<close> (section 3: the prompt is non-empty text).
\<close>

datatype codec_error = MalformedMessageError

definition required_string :: "(string \<times> json) list \<Rightarrow> string \<Rightarrow> string option" where
  "required_string kvs key =
     (case map_of kvs key of Some (JString s) \<Rightarrow> Some s | _ \<Rightarrow> None)"

definition decode_request :: "payload \<Rightarrow> codec_error + ImageGenerationRequest" where
  "decode_request data =
     (case data of
        JSON (JObject kvs) \<Rightarrow>
          (case (required_string kvs ''request_id'', required_string kvs ''user_id'',
                 required_string kvs ''prompt'') of
             (Some r, Some u, Some p) \<Rightarrow>
               if r \<noteq> [] \<and> p \<noteq> []
               then Inr \<lparr>req_RequestID = r, req_UserID = u, req_Prompt = p\<rparr>
               else Inl MalformedMessageError
           | _ \<Rightarrow> Inl MalformedMessageError)
      | _ \<Rightarrow> Inl MalformedMessageError)"

subsection \<open>Notions used in the statements\<close>

definition ascii :: "char \<Rightarrow> bool" where
  "ascii c = ((of_char c :: nat) < 0x80)"

text \<open>A member of an object is known when \<^verbatim>\<open>Unmarshal\<close> finds a field for its key.\<close>

definition known :: "string \<times> json \<Rightarrow> bool" where
  "known m = (find_field (fst m) \<noteq> None)"

text \<open>
  \<open>adds_unknown_fields xs ys\<close>: the members \<open>ys\<close> are the members \<open>xs\<close>, in their
  order, with members of unknown keys added anywhere among them.
\<close>

fun adds_unknown_fields :: "(string \<times> json) list \<Rightarrow> (string \<times> json) list \<Rightarrow> bool" where
  "adds_unknown_fields [] ys = list_all (\<lambda>m. \<not> known m) ys"
| "adds_unknown_fields (x # xs) [] = False"
| "adds_unknown_fields (x # xs) (y # ys) =
     ((x = y \<and> adds_unknown_fields xs ys) \<or> (\<not> known y \<and> adds_unknown_fields (x # xs) ys))"

text \<open>
  A value fits a field when it is \<^verbatim>\<open>null\<close>, a string for a string field, or a
  number in range for \<^verbatim>\<open>generation_time_seconds\<close>. A payload is decodable when it
  is \<^verbatim>\<open>null\<close> or an object whose known members all fit their fields. Neither
  notion asks for any member to be present, nor looks at the text of a string.
\<close>

fun fits :: "field \<Rightarrow> json \<Rightarrow> bool" where
  "fits f JNull = True"
| "fits f (JString s) = (f \<noteq> FGenerationTimeSeconds)"
| "fits f (JNumber literal n) = (f = FGenerationTimeSeconds \<and> n \<noteq> None)"
| "fits f v = False"

definition member_fits :: "string \<times> json \<Rightarrow> bool" where
  "member_fits m = (case find_field (fst m) of None \<Rightarrow> True | Some f \<Rightarrow> fits f (snd m))"

definition decodable :: "payload \<Rightarrow> bool" where
  "decodable data =
     (case data of
        NotJSON \<Rightarrow> False
      | JSON v \<Rightarrow>
          (case v of
             JNull \<Rightarrow> True
           | JObject kvs \<Rightarrow> list_all member_fits kvs
           | _ \<Rightarrow> False))"

subsection \<open>Example data\<close>

text \<open>
  A world whose bus is reachable and whose random source yields the bytes
  \<open>00 11 22 ...\<close> on its first read; a transport error; the two notifications of
  \<^verbatim>\<open>README_PUBSUB.md\<close> (45.2 read as a \<^verbatim>\<open>float64\<close>); and a completion with an
  empty \<^verbatim>\<open>request_id\<close> and a status that is neither \<^verbatim>\<open>completed\<close> nor
  \<^verbatim>\<open>failed\<close>.

  The source's \<open>UpdateGeneratedContentWithImage\<close> ends in \<^verbatim>\<open>return nil // placeholder\<close>
  and names in its comment the call that belongs there,
  \<^verbatim>\<open>return genRepo.UpdateWithImageURL(requestID, s3Key, s3URL)\<close>. \<open>failing_update\<close>
  is the function with that call in place, on a repository that has lost its
  connection.
\<close>

definition world0 :: world where
  "world0 = \<lparr>rander = (\<lambda>n i. of_nat (17 * (n + i))), reads = 0, redis_err = None,
             published = [], logs = []\<rparr>"

definition down :: error where
  "down = RedisError ''dial tcp: connection refused''"

definition genRepo_down :: updater where
  "genRepo_down requestID s3Key s3URL w = (Some (DatabaseError ''connection lost''), w)"

definition failing_update :: updater where
  "failing_update requestID s3Key s3URL w =
     genRepo_down requestID s3Key s3URL (log_Printf (UpdatingDatabase requestID s3Key s3URL) w)"

definition completed_r1 :: payload where
  "completed_r1 = JSON (JObject
     [(''request_id'', JString ''r1''), (''user_id'', JString ''u1''),
      (''status'', JString ''completed''),
      (''s3_key'', JString ''generated/u1/r1.png''),
      (''s3_url'', JString ''https://mobiarty-assets/r1.png''),
      (''generation_time_seconds'',
         JNumber ''45.2'' (Some (3180667236830413 / 70368744177664))),
      (''timestamp'', JString ''2025-08-10T19:30:00'')])"

definition failed_r2 :: payload where
  "failed_r2 = JSON (JObject
     [(''request_id'', JString ''r2''), (''user_id'', JString ''u1''),
      (''status'', JString ''failed''),
      (''error'', JString ''Image generation failed''),
      (''timestamp'', JString ''2025-08-10T19:30:00'')])"

definition pending_r3 :: payload where
  "pending_r3 = JSON (JObject [(''request_id'', JString []), (''status'', JString ''pending'')])"

section \<open>Facts about the libraries\<close>

subsection \<open>Valid UTF-8 is what the encoder leaves alone\<close>

lemma valid_coerce: "valid_from k s \<Longrightarrow> coerce_from k s = s"
  by (induction s arbitrary: k) (auto split: nat.splits if_splits)

lemma ValidString_coerce: "ValidString s \<Longrightarrow> utf8_coerce s = s"
  by (simp add: ValidString_def utf8_coerce_def valid_coerce)

lemma ascii_valid: "list_all ascii s \<Longrightarrow> valid_from 0 s"
  by (induction s) (auto simp: ascii_def Let_def)

lemma utf8_coerce_u1: "utf8_coerce ''u1'' = ''u1''"
  by (simp add: utf8_coerce_def)

lemma utf8_coerce_dragon: "utf8_coerce ''dragon'' = ''dragon''"
  by (simp add: utf8_coerce_def)

subsection \<open>The text of a UUID\<close>

lemma hextable_ascii: "list_all ascii hextable"
  by (simp add: hextable_def ascii_def)

lemma hex_digit_ascii: "n < 16 \<Longrightarrow> ascii (hextable ! n)"
  using hextable_ascii by (simp add: list_all_length hextable_def)

lemma hi_nibble: "unat (drop_bit 4 (v :: 8 word)) < 16"
proof -
  have "unat v < 2 ^ 8" using unsigned_less [of v] by simp
  moreover have "unat (drop_bit 4 v) = drop_bit 4 (unat v)"
    by (rule unat_drop_bit_eq)
  moreover have "drop_bit 4 (unat v) = unat v div 2 ^ 4"
    by (rule drop_bit_eq_div)
  ultimately show ?thesis by simp
qed

lemma lo_nibble: "unat ((v :: 8 word) AND 0x0f) < 16"
proof -
  have "v AND 0x0f \<le> 0x0f" by (rule word_and_le1)
  then show ?thesis by (simp add: word_le_nat_alt)
qed

lemma hex_Encode_ascii: "list_all ascii (hex_Encode src)"
  by (induction src) (simp_all add: hex_Encode_def hex_digit_ascii hi_nibble lo_nibble)

lemma length_hex_Encode: "length (hex_Encode src) = 2 * length src"
  by (induction src) (simp_all add: hex_Encode_def)

lemma uuid_String_ascii: "list_all ascii (uuid_String u)"
  by (simp add: uuid_String_def hex_Encode_ascii ascii_def)

lemma length_uuid_String: "length (uuid_String u) = 36"
  by (simp add: uuid_String_def length_hex_Encode)

lemma uuid_String_nonempty: "uuid_String u \<noteq> []"
  by (simp add: uuid_String_def)

lemma uuid_String_coerce: "utf8_coerce (uuid_String u) = uuid_String u"
  by (simp add: utf8_coerce_def valid_coerce ascii_valid uuid_String_ascii)

lemma first_uuid_of_world0:
  "uuid_String (NewRandomFromReader (rander world0 0)) = ''00112233-4455-4677-8899-aabbccddeeff''"
  by (simp add: uuid_String_def NewRandomFromReader_def world0_def hex_Encode_def hextable_def
      upt_rec)

subsection \<open>Encoding a request\<close>

lemma json_Marshal_never_fails: "\<not> isl (json_Marshal request)"
  by (simp add: json_Marshal_def)

subsection \<open>Matching keys with fields\<close>

lemma find_field_None_iff:
  "find_field key = None \<longleftrightarrow>
     list_all (\<lambda>f. foldName (json_name f) \<noteq> foldName key) completion_fields"
proof (cases "find (\<lambda>f. json_name f = key) completion_fields")
  case None
  then have "find_field key =
      find (\<lambda>f. foldName (json_name f) = foldName key) completion_fields"
    by (simp add: find_field_def)
  then show ?thesis by (auto simp: find_None_iff list_all_iff)
next
  case (Some f)
  then have "f \<in> set completion_fields" and "json_name f = key"
    by (auto simp: find_Some_iff)
  then have "\<not> list_all (\<lambda>f. foldName (json_name f) \<noteq> foldName key) completion_fields"
    by (auto simp: list_all_iff)
  then show ?thesis using Some by (simp add: find_field_def)
qed

subsection \<open>Decoding an object\<close>

lemma decode_object_skip: "decode_object kvs acc = decode_object (filter known kvs) acc"
  by (induction kvs acc rule: decode_object.induct)
     (auto simp: known_def split: option.splits prod.splits)

lemma adds_unknown_filter: "adds_unknown_fields xs ys \<Longrightarrow> filter known ys = filter known xs"
proof (induction xs ys rule: adds_unknown_fields.induct)
  case (1 ys)
  then show ?case by (induction ys) auto
next
  case (2 x xs)
  then show ?case by simp
next
  case (3 x xs y ys)
  then show ?case by auto
qed

lemma store_ok: "fst (store f v c) = None \<longleftrightarrow> fits f v"
  by (cases v) (auto simp: store_def split: option.splits)

lemma store_error:
  "fst (store f v c) = Some e \<Longrightarrow> \<exists>kind. e = UnmarshalTypeError kind (json_name f)"
  by (cases v) (auto simp: store_def split: option.splits if_splits)

text \<open>Once an error is saved it is the one reported.\<close>

lemma decode_object_saved: "fst (decode_object kvs (Some e, c)) = Some e"
  by (induction kvs arbitrary: c) (auto split: option.splits prod.splits)

lemma decode_object_ok:
  "fst (decode_object kvs (None, c)) = None \<longleftrightarrow> list_all member_fits kvs"
proof (induction kvs arbitrary: c)
  case Nil
  then show ?case by simp
next
  case (Cons m kvs)
  obtain key v where m: "m = (key, v)" by (cases m)
  show ?case
  proof (cases "find_field key")
    case None
    then show ?thesis using Cons.IH [of c] by (simp add: m member_fits_def)
  next
    case (Some f)
    obtain e c' where st: "store f v c = (e, c')" by (cases "store f v c")
    show ?thesis
    proof (cases e)
      case None
      then have "fits f v" using store_ok [of f v c] st by simp
      then show ?thesis using Cons.IH [of c'] Some st None by (simp add: m member_fits_def)
    next
      case (Some e')
      then have "\<not> fits f v" using store_ok [of f v c] st by simp
      then show ?thesis
        using \<open>find_field key = Some f\<close> st Some decode_object_saved [of kvs e' c']
        by (simp add: m member_fits_def)
    qed
  qed
qed

lemma decode_object_error:
  "fst (decode_object kvs (None, c)) = Some e \<Longrightarrow> \<exists>kind f. e = UnmarshalTypeError kind f"
proof (induction kvs arbitrary: c)
  case Nil
  then show ?case by simp
next
  case (Cons m kvs)
  obtain key v where m: "m = (key, v)" by (cases m)
  show ?case
  proof (cases "find_field key")
    case None
    then show ?thesis using Cons by (simp add: m)
  next
    case (Some f)
    obtain e' c' where st: "store f v c = (e', c')" by (cases "store f v c")
    show ?thesis
    proof (cases e')
      case None
      then show ?thesis using Cons Some st by (simp add: m)
    next
      case (Some e'')
      then have "e = e''"
        using Cons.prems \<open>find_field key = Some f\<close> st decode_object_saved [of kvs e'' c']
        by (simp add: m)
      then show ?thesis using store_error [of f v c e''] st Some by auto
    qed
  qed
qed

lemma Unmarshal_ok_iff: "(\<exists>c. json_Unmarshal data = Inr c) \<longleftrightarrow> decodable data"
proof (cases data)
  case NotJSON
  then show ?thesis by (simp add: json_Unmarshal_def decodable_def)
next
  case (JSON v)
  show ?thesis
  proof (cases v)
    case (JObject kvs)
    obtain e c where d: "decode_object kvs (None, zero_completion) = (e, c)"
      by (cases "decode_object kvs (None, zero_completion)")
    have "e = None \<longleftrightarrow> list_all member_fits kvs"
      using decode_object_ok [of kvs zero_completion] d by simp
    then show ?thesis using JSON JObject d
      by (cases e) (simp_all add: json_Unmarshal_def decodable_def)
  qed (simp_all add: JSON json_Unmarshal_def decodable_def)
qed

lemma Unmarshal_error:
  assumes "json_Unmarshal data = Inl e"
  shows "e = SyntaxError \<or> (\<exists>kind f. e = UnmarshalTypeError kind f)"
proof (cases data)
  case NotJSON
  then show ?thesis using assms by (simp add: json_Unmarshal_def)
next
  case (JSON v)
  show ?thesis
  proof (cases v)
    case (JObject kvs)
    obtain e' c where d: "decode_object kvs (None, zero_completion) = (e', c)"
      by (cases "decode_object kvs (None, zero_completion)")
    then have "e' = Some e" using assms JSON JObject
      by (cases e') (simp_all add: json_Unmarshal_def)
    then show ?thesis using decode_object_error [of kvs zero_completion e] d by simp
  qed (use assms JSON in \<open>auto simp: json_Unmarshal_def\<close>)
qed

subsection \<open>The example payloads, decoded\<close>

lemma Unmarshal_NotJSON: "json_Unmarshal NotJSON = Inl SyntaxError"
  by (simp add: json_Unmarshal_def)

lemma Unmarshal_completed_r1:
  "json_Unmarshal completed_r1 =
     Inr \<lparr>RequestID = ''r1'', UserID = ''u1'', Status = ''completed'',
          S3Key = ''generated/u1/r1.png'', S3URL = ''https://mobiarty-assets/r1.png'',
          GenerationTimeSeconds = 3180667236830413 / 70368744177664, Error = [],
          Timestamp = ''2025-08-10T19:30:00''\<rparr>"
  by (simp add: json_Unmarshal_def completed_r1_def find_field_def completion_fields_def
      store_def set_string_def zero_completion_def)

lemma Unmarshal_failed_r2:
  "json_Unmarshal failed_r2 =
     Inr \<lparr>RequestID = ''r2'', UserID = ''u1'', Status = ''failed'', S3Key = [], S3URL = [],
          GenerationTimeSeconds = 0, Error = ''Image generation failed'',
          Timestamp = ''2025-08-10T19:30:00''\<rparr>"
  by (simp add: json_Unmarshal_def failed_r2_def find_field_def completion_fields_def
      store_def set_string_def zero_completion_def)

lemma Unmarshal_pending_r3:
  "json_Unmarshal pending_r3 = Inr (zero_completion\<lparr>Status := ''pending''\<rparr>)"
  by (simp add: json_Unmarshal_def pending_r3_def find_field_def completion_fields_def
      store_def set_string_def zero_completion_def)

lemma Unmarshal_status_only:
  "json_Unmarshal (JSON (JObject [(''status'', JString ''completed'')]))
     = Inr (zero_completion\<lparr>Status := ''completed''\<rparr>)"
  by (simp add: json_Unmarshal_def find_field_def completion_fields_def store_def
      set_string_def)

lemma adds_example:
  "adds_unknown_fields [(''status'', JString ''completed'')]
     [(''trace_id'', JString ''t-7''), (''status'', JString ''completed''), (''meta'', JObject [])]"
  by code_simp

subsection \<open>The loop and its log\<close>

lemma db_updates_append: "db_updates (xs @ ys) = db_updates xs @ db_updates ys"
  by (induction xs rule: db_updates.induct) simp_all

lemma listen_loop_foldl:
  "listen_loop update msgs w = foldl (\<lambda>w m. handle_message update m w) w msgs"
  by (induction msgs arbitrary: w) simp_all

lemma placeholder_returns_nil:
  "fst (UpdateGeneratedContentWithImage requestID s3Key s3URL w) = None"
  by (simp add: UpdateGeneratedContentWithImage_def)

lemma listen_loop_append:
  "listen_loop update (xs @ ys) w = listen_loop update ys (listen_loop update xs w)"
  by (induction xs arbitrary: w) simp_all

section \<open>The publisher\<close>

text \<open>
  Claim C1, as the code has it. When the bus takes the message,
  \<open>PublishImageGenerationRequest\<close> draws a new identifier from the UUID generator
  (the next read of the random source, which the call uses up), publishes on the
  channel \<^verbatim>\<open>image_generation_requests\<close> the JSON object with the members
  \<^verbatim>\<open>request_id\<close>, \<^verbatim>\<open>user_id\<close> and \<^verbatim>\<open>prompt\<close>, in which \<^verbatim>\<open>request_id\<close> is that
  identifier and the two others are the arguments as JSON strings, logs the
  publication and returns the same identifier with a \<^verbatim>\<open>nil\<close> error. Nothing in the
  result depends on a completion: the function reads no message.
\<close>

theorem publish_request_on_reachable_bus:
  assumes "redis_err w = None"
    and "requestID = uuid_String (fst (uuid_New w))"
  shows "PublishImageGenerationRequest userID prompt w =
           ((requestID, None),
            w\<lparr>reads := Suc (reads w),
              published := published w @
                [(''image_generation_requests'',
                  JSON (JObject [(''request_id'', JString requestID),
                                 (''user_id'', JString (utf8_coerce userID)),
                                 (''prompt'', JString (utf8_coerce prompt))]))],
              logs := logs w @ [PublishedRequest requestID]\<rparr>)"
  using assms
  by (simp add: PublishImageGenerationRequest_def uuid_New_def json_Marshal_def rdb_Publish_def
      log_Printf_def uuid_String_coerce Let_def)

theorem publish_request_on_reachable_bus_witness:
  "redis_err world0 = None
   \<and> fst (PublishImageGenerationRequest ''u1'' ''dragon'' world0)
       = (''00112233-4455-4677-8899-aabbccddeeff'', None)
   \<and> published (snd (PublishImageGenerationRequest ''u1'' ''dragon'' world0))
       = [(''image_generation_requests'',
           JSON (JObject [(''request_id'', JString ''00112233-4455-4677-8899-aabbccddeeff''),
                          (''user_id'', JString ''u1''),
                          (''prompt'', JString ''dragon'')]))]"
proof -
  have up: "redis_err world0 = None" by (simp add: world0_def)
  have rid: "''00112233-4455-4677-8899-aabbccddeeff'' = uuid_String (fst (uuid_New world0))"
    using first_uuid_of_world0 by (simp add: uuid_New_def world0_def)
  show ?thesis
    using up publish_request_on_reachable_bus [OF up rid, of "''u1''" "''dragon''"]
    by (simp add: utf8_coerce_u1 utf8_coerce_dragon world0_def)
qed

text \<open>
  Not every call returns the identifier it generated: when the publish meets a
  transport error, the call returns the empty string with that error, and the bus
  holds no message.
\<close>

theorem publish_request_bus_unreachable_counterexample:
  "fst (PublishImageGenerationRequest ''u1'' ''dragon'' (world0\<lparr>redis_err := Some down\<rparr>))
     = ([], Some down)
   \<and> published (snd (PublishImageGenerationRequest ''u1'' ''dragon''
                       (world0\<lparr>redis_err := Some down\<rparr>)))
     = []"
  by (simp add: PublishImageGenerationRequest_def uuid_New_def json_Marshal_def rdb_Publish_def
      log_Printf_def Let_def world0_def)

text \<open>
  Claim C8. \<open>PublishImageGenerationRequest\<close> returns an error exactly when
  \<^verbatim>\<open>json.Marshal\<close> of the request fails or the publish on the bus fails, and the
  identifier it returns is the empty string exactly when it returns an error; so a
  call that succeeds returns a \<^verbatim>\<open>nil\<close> error and a non-empty identifier.
\<close>

theorem publish_request_error_iff:
  "(snd (fst (PublishImageGenerationRequest userID prompt w)) \<noteq> None
      \<longleftrightarrow> isl (json_Marshal \<lparr>req_RequestID = uuid_String (fst (uuid_New w)),
                               req_UserID = userID, req_Prompt = prompt\<rparr>)
          \<or> redis_err w \<noteq> None)
   \<and> (fst (fst (PublishImageGenerationRequest userID prompt w)) = []
      \<longleftrightarrow> snd (fst (PublishImageGenerationRequest userID prompt w)) \<noteq> None)"
  by (cases "redis_err w")
     (simp_all add: PublishImageGenerationRequest_def uuid_New_def json_Marshal_def
      rdb_Publish_def log_Printf_def Let_def uuid_String_nonempty)

theorem publish_request_error_iff_witness:
  "snd (fst (PublishImageGenerationRequest ''u1'' ''dragon'' world0)) = None
   \<and> fst (fst (PublishImageGenerationRequest ''u1'' ''dragon'' world0)) \<noteq> []
   \<and> snd (fst (PublishImageGenerationRequest ''u1'' ''dragon''
                  (world0\<lparr>redis_err := Some down\<rparr>))) \<noteq> None
   \<and> fst (fst (PublishImageGenerationRequest ''u1'' ''dragon''
                  (world0\<lparr>redis_err := Some down\<rparr>))) = []"
  using publish_request_error_iff [of "''u1''" "''dragon''" world0]
    publish_request_error_iff [of "''u1''" "''dragon''" "world0\<lparr>redis_err := Some down\<rparr>"]
  by (simp add: json_Marshal_def world0_def)

section \<open>The codec\<close>

text \<open>
  Claim C4, as the code has it. For every request with a non-empty \<^verbatim>\<open>request_id\<close>
  and a non-empty \<^verbatim>\<open>prompt\<close> whose three strings are valid UTF-8, \<^verbatim>\<open>json.Marshal\<close>
  succeeds and the worker's decoder reads the same request back from its output.
\<close>

theorem request_roundtrip_valid_utf8:
  assumes "req_RequestID r \<noteq> []" and "req_Prompt r \<noteq> []"
    and "ValidString (req_RequestID r)" and "ValidString (req_UserID r)"
    and "ValidString (req_Prompt r)"
  shows "\<exists>data. json_Marshal r = Inr data \<and> decode_request data = Inr r"
  using assms
  by (simp add: json_Marshal_def decode_request_def required_string_def ValidString_coerce)

theorem request_roundtrip_valid_utf8_witness:
  "\<exists>data. json_Marshal \<lparr>req_RequestID = ''r1'', req_UserID = ''u1'', req_Prompt = ''dragon''\<rparr>
            = Inr data
     \<and> decode_request data
            = Inr \<lparr>req_RequestID = ''r1'', req_UserID = ''u1'', req_Prompt = ''dragon''\<rparr>"
  using request_roundtrip_valid_utf8
    [of "\<lparr>req_RequestID = ''r1'', req_UserID = ''u1'', req_Prompt = ''dragon''\<rparr>"]
  by (simp add: ValidString_def)

text \<open>
  A Go string need not be valid UTF-8. The prompt that is the single byte \<open>FF\<close> is
  not empty; \<^verbatim>\<open>json.Marshal\<close> writes U+FFFD in its place, and the decoder reads
  back the three bytes of U+FFFD: another request.
\<close>

theorem request_roundtrip_counterexample:
  "json_Marshal \<lparr>req_RequestID = ''r1'', req_UserID = ''u1'', req_Prompt = [CHR 0xFF]\<rparr>
     = Inr (JSON (JObject [(''request_id'', JString ''r1''), (''user_id'', JString ''u1''),
                           (''prompt'', JString [CHR 0xEF, CHR 0xBF, CHR 0xBD])]))
   \<and> decode_request
       (JSON (JObject [(''request_id'', JString ''r1''), (''user_id'', JString ''u1''),
                       (''prompt'', JString [CHR 0xEF, CHR 0xBF, CHR 0xBD])]))
     = Inr \<lparr>req_RequestID = ''r1'', req_UserID = ''u1'',
            req_Prompt = [CHR 0xEF, CHR 0xBF, CHR 0xBD]\<rparr>
   \<and> [CHR 0xEF, CHR 0xBF, CHR 0xBD] \<noteq> [CHR 0xFF]"
  by (simp add: json_Marshal_def decode_request_def required_string_def utf8_coerce_def
      RuneError_def)

text \<open>
  Claim C2, as the code has it. Decoding a completion fails exactly when the payload
  is not decodable: it is not well-formed JSON, or it is a document other than an
  object or \<^verbatim>\<open>null\<close>, or a member whose key matches a field has a value of the wrong
  JSON type (a number out of range included). The error is then
  \<^verbatim>\<open>encoding/json\<close>'s own \<^verbatim>\<open>SyntaxError\<close> or \<^verbatim>\<open>UnmarshalTypeError\<close>. A missing
  member, an empty \<^verbatim>\<open>request_id\<close> and a status outside \<^verbatim>\<open>completed\<close> and
  \<^verbatim>\<open>failed\<close> are no reason to fail: \<open>decodable\<close> does not look at them.
\<close>

theorem completion_decode_fails_iff_ill_typed:
  "(isl (json_Unmarshal data) \<longleftrightarrow> \<not> decodable data)
   \<and> (\<forall>e. json_Unmarshal data = Inl e \<longrightarrow>
          e = SyntaxError \<or> (\<exists>kind f. e = UnmarshalTypeError kind f))"
proof -
  have "isl (json_Unmarshal data) \<longleftrightarrow> \<not> (\<exists>c. json_Unmarshal data = Inr c)"
    by (cases "json_Unmarshal data") simp_all
  then show ?thesis using Unmarshal_ok_iff [of data] Unmarshal_error [of data] by blast
qed

theorem completion_decode_fails_iff_ill_typed_witness:
  "isl (json_Unmarshal (JSON (JObject [(''status'', JNumber ''5'' (Some 5))])))
   \<and> \<not> isl (json_Unmarshal pending_r3)"
proof -
  have "\<not> decodable (JSON (JObject [(''status'', JNumber ''5'' (Some 5))]))"
    by (simp add: decodable_def member_fits_def find_field_def completion_fields_def)
  moreover have "decodable pending_r3"
    by (simp add: decodable_def pending_r3_def member_fits_def find_field_def
        completion_fields_def)
  ultimately show ?thesis
    using completion_decode_fails_iff_ill_typed [of "JSON (JObject [(''status'', JNumber ''5'' (Some 5))])"]
      completion_decode_fails_iff_ill_typed [of pending_r3]
    by blast
qed

text \<open>
  A payload without \<^verbatim>\<open>user_id\<close> and \<^verbatim>\<open>timestamp\<close>, with an empty \<^verbatim>\<open>request_id\<close> and
  the status \<^verbatim>\<open>pending\<close>, decodes without error; the missing fields keep their zero
  values.
\<close>

theorem completion_decode_accepts_invalid_counterexample:
  "json_Unmarshal (JSON (JObject [(''request_id'', JString []), (''status'', JString ''pending'')]))
     = Inr \<lparr>RequestID = [], UserID = [], Status = ''pending'', S3Key = [], S3URL = [],
            GenerationTimeSeconds = 0, Error = [], Timestamp = []\<rparr>"
  by (simp add: json_Unmarshal_def find_field_def completion_fields_def store_def
      set_string_def zero_completion_def)

text \<open>
  Claim C7, as the code has it. For every object that decodes successfully, adding
  members whose keys match no field, neither exactly nor case-insensitively
  (\<open>find_field_None_iff\<close>), and whatever their values, yields an object that decodes
  to the same completion.
\<close>

theorem unmarshal_ignores_unmatched_fields:
  assumes "json_Unmarshal (JSON (JObject kvs)) = Inr c"
    and "adds_unknown_fields kvs kvs'"
  shows "json_Unmarshal (JSON (JObject kvs')) = Inr c"
proof -
  have "filter known kvs' = filter known kvs"
    using assms(2) by (rule adds_unknown_filter)
  then have "decode_object kvs' (None, zero_completion) =
      decode_object kvs (None, zero_completion)"
    using decode_object_skip [of kvs'] decode_object_skip [of kvs] by simp
  then show ?thesis using assms(1) by (simp add: json_Unmarshal_def)
qed

theorem unmarshal_ignores_unmatched_fields_witness:
  "json_Unmarshal (JSON (JObject
      [(''trace_id'', JString ''t-7''), (''status'', JString ''completed''), (''meta'', JObject [])]))
     = Inr (zero_completion\<lparr>Status := ''completed''\<rparr>)"
  using unmarshal_ignores_unmatched_fields [OF Unmarshal_status_only adds_example] .

text \<open>
  The key \<^verbatim>\<open>STATUS\<close> is none of the eight names of the schema, yet
  \<^verbatim>\<open>Unmarshal\<close> stores its value in the field \<^verbatim>\<open>Status\<close>: added after the member
  \<^verbatim>\<open>status\<close>, it changes what the payload decodes to.
\<close>

theorem unmarshal_case_variant_counterexample:
  "''STATUS'' \<notin> set (map json_name completion_fields)
   \<and> json_Unmarshal (JSON (JObject [(''status'', JString ''completed'')]))
       = Inr (zero_completion\<lparr>Status := ''completed''\<rparr>)
   \<and> json_Unmarshal (JSON (JObject [(''status'', JString ''completed''),
                                     (''STATUS'', JString ''failed'')]))
       = Inr (zero_completion\<lparr>Status := ''failed''\<rparr>)"
  by code_simp

section \<open>The listener\<close>

text \<open>
  Claim C5. For a message that decodes to a completion, the listener calls
  \<open>UpdateGeneratedContentWithImage\<close> exactly once, with the completion's
  \<^verbatim>\<open>request_id\<close>, \<^verbatim>\<open>s3_key\<close> and \<^verbatim>\<open>s3_url\<close>, when the status is \<^verbatim>\<open>completed\<close>, and
  does not call it when the status is \<^verbatim>\<open>failed\<close>.
\<close>

theorem listener_dispatch_by_status:
  assumes "json_Unmarshal msg = Inr completion"
  shows "(Status completion = ''completed'' \<longrightarrow>
            db_updates (logs (handle_message UpdateGeneratedContentWithImage msg w)) =
              db_updates (logs w) @
                [(RequestID completion, S3Key completion, S3URL completion)])
       \<and> (Status completion = ''failed'' \<longrightarrow>
            db_updates (logs (handle_message UpdateGeneratedContentWithImage msg w)) =
              db_updates (logs w))"
  using assms
  by (simp add: handle_message_def UpdateGeneratedContentWithImage_def log_Printf_def
      db_updates_append Let_def)

theorem listener_dispatch_by_status_witness:
  "db_updates (logs (handle_message UpdateGeneratedContentWithImage completed_r1 world0))
     = [(''r1'', ''generated/u1/r1.png'', ''https://mobiarty-assets/r1.png'')]
   \<and> db_updates (logs (handle_message UpdateGeneratedContentWithImage failed_r2 world0)) = []"
  using listener_dispatch_by_status [OF Unmarshal_completed_r1, of world0]
    listener_dispatch_by_status [OF Unmarshal_failed_r2, of world0]
  by (simp add: world0_def)

text \<open>
  Claim C6. A message that fails to decode leaves the world as it was but for one
  new line at the end of the log, the decoding error: no update is called, whatever
  the update is. The loop does not end on it: wherever the message stands among the
  delivered messages, the listener has handled the messages before it, and handles
  every message after it, one by one, from the world with that line.
\<close>

theorem listener_drops_malformed:
  assumes "json_Unmarshal msg = Inl err"
  shows "handle_message update msg w = w\<lparr>logs := logs w @ [FailedToParse err]\<rparr>
       \<and> listen_loop update (before @ msg # after) w =
           (let w1 = foldl (\<lambda>w m. handle_message update m w) w before
            in foldl (\<lambda>w m. handle_message update m w)
                 (w1\<lparr>logs := logs w1 @ [FailedToParse err]\<rparr>) after)"
proof -
  have body: "handle_message update msg v = v\<lparr>logs := logs v @ [FailedToParse err]\<rparr>" for v
    using assms by (simp add: handle_message_def log_Printf_def)
  show ?thesis
    by (simp add: body listen_loop_foldl Let_def)
qed

theorem listener_drops_malformed_witness:
  "logs (listen_loop UpdateGeneratedContentWithImage ([completed_r1] @ NotJSON # [failed_r2])
           world0) =
     [ReceivedCompletion ''r1'' ''completed'',
      UpdatingDatabase ''r1'' ''generated/u1/r1.png'' ''https://mobiarty-assets/r1.png'',
      UpdatedDatabase ''r1'',
      FailedToParse SyntaxError,
      ReceivedCompletion ''r2'' ''failed'',
      GenerationFailed ''r2'' ''Image generation failed'']"
proof -
  have run: "listen_loop UpdateGeneratedContentWithImage ([completed_r1] @ NotJSON # [failed_r2])
        world0 =
      (let w1 = foldl (\<lambda>w m. handle_message UpdateGeneratedContentWithImage m w) world0
                  [completed_r1]
       in foldl (\<lambda>w m. handle_message UpdateGeneratedContentWithImage m w)
            (w1\<lparr>logs := logs w1 @ [FailedToParse SyntaxError]\<rparr>) [failed_r2])"
    using listener_drops_malformed [OF Unmarshal_NotJSON] by (rule conjunct2)
  show ?thesis
    unfolding run
    by (simp add: handle_message_def Unmarshal_completed_r1 Unmarshal_failed_r2
        UpdateGeneratedContentWithImage_def log_Printf_def world0_def)
qed

text \<open>
  Claim C9, as the code has it. For a decoded completion whose status is neither
  \<^verbatim>\<open>completed\<close> nor \<^verbatim>\<open>failed\<close>, the listener logs the line that it received the
  completion, as it does for every decoded completion, and does nothing more: the
  world is as it was but for that one line at the end of the log, so no update is
  called, whatever the update is, and no error is logged; the log records no call
  of the source's update; and the listener handles every message that follows, one
  by one, from the world with that line.
\<close>

theorem listener_unrecognised_status:
  assumes "json_Unmarshal msg = Inr completion"
    and "Status completion \<noteq> ''completed''" and "Status completion \<noteq> ''failed''"
  shows "handle_message update msg w =
           w\<lparr>logs := logs w @
               [ReceivedCompletion (RequestID completion) (Status completion)]\<rparr>
       \<and> db_updates (logs (handle_message UpdateGeneratedContentWithImage msg w)) =
           db_updates (logs w)
       \<and> listen_loop update (msg # msgs) w =
           foldl (\<lambda>w m. handle_message update m w)
             (w\<lparr>logs := logs w @
                 [ReceivedCompletion (RequestID completion) (Status completion)]\<rparr>) msgs"
proof -
  have body: "handle_message u msg w =
      w\<lparr>logs := logs w @ [ReceivedCompletion (RequestID completion) (Status completion)]\<rparr>"
    for u
    using assms by (simp add: handle_message_def log_Printf_def Let_def)
  show ?thesis
    by (simp add: body listen_loop_foldl db_updates_append)
qed

theorem listener_unrecognised_status_witness:
  "logs (listen_loop UpdateGeneratedContentWithImage (pending_r3 # [completed_r1]) world0) =
     [ReceivedCompletion [] ''pending'',
      ReceivedCompletion ''r1'' ''completed'',
      UpdatingDatabase ''r1'' ''generated/u1/r1.png'' ''https://mobiarty-assets/r1.png'',
      UpdatedDatabase ''r1'']"
proof -
  have st: "Status (zero_completion\<lparr>Status := ''pending''\<rparr>) \<noteq> ''completed''"
    "Status (zero_completion\<lparr>Status := ''pending''\<rparr>) \<noteq> ''failed''"
    by simp_all
  have run: "listen_loop UpdateGeneratedContentWithImage (pending_r3 # [completed_r1]) world0 =
      foldl (\<lambda>w m. handle_message UpdateGeneratedContentWithImage m w)
        (world0\<lparr>logs := logs world0 @
            [ReceivedCompletion (RequestID (zero_completion\<lparr>Status := ''pending''\<rparr>))
               (Status (zero_completion\<lparr>Status := ''pending''\<rparr>))]\<rparr>) [completed_r1]"
    using listener_unrecognised_status [OF Unmarshal_pending_r3 st] by blast
  show ?thesis
    unfolding run
    by (simp add: handle_message_def Unmarshal_completed_r1 UpdateGeneratedContentWithImage_def
        log_Printf_def world0_def zero_completion_def)
qed

text \<open>
  The listener is not silent on such a completion, and the world does not stay as
  it was: the log, empty before, holds one line after.
\<close>

theorem listener_unrecognised_status_counterexample:
  "logs world0 = [] \<and>
   logs (handle_message UpdateGeneratedContentWithImage pending_r3 world0)
     = [ReceivedCompletion [] ''pending'']"
  by (simp add: handle_message_def Unmarshal_pending_r3 log_Printf_def world0_def
      zero_completion_def)

text \<open>
  Claim C10. When the database update of a \<^verbatim>\<open>completed\<close> completion returns an
  error, the listener adds one line to the log of the world that the one call of
  the update left, the failure with that error, and changes nothing else: the
  update is not called again. The loop does not end: the listener handles every
  message that follows, one by one, from that world. The statement is about the
  listener and holds for every update; the placeholder of the source returns
  \<^verbatim>\<open>nil\<close> on every call (\<open>placeholder_returns_nil\<close>), so the branch is taken once
  the repository call is in its place.
\<close>

theorem listener_update_error_continues:
  assumes "json_Unmarshal msg = Inr completion"
    and "Status completion = ''completed''"
    and "update (RequestID completion) (S3Key completion) (S3URL completion)
           (w\<lparr>logs := logs w @
               [ReceivedCompletion (RequestID completion) (Status completion)]\<rparr>)
         = (Some err, w')"
  shows "handle_message update msg w = w'\<lparr>logs := logs w' @ [FailedToUpdateDatabase err]\<rparr>
       \<and> listen_loop update (msg # msgs) w =
           foldl (\<lambda>w m. handle_message update m w)
             (w'\<lparr>logs := logs w' @ [FailedToUpdateDatabase err]\<rparr>) msgs"
proof -
  have body: "handle_message update msg w =
      w'\<lparr>logs := logs w' @ [FailedToUpdateDatabase err]\<rparr>"
    using assms by (simp add: handle_message_def log_Printf_def Let_def)
  show ?thesis
    by (simp add: body listen_loop_foldl)
qed

theorem listener_update_error_continues_witness:
  "logs (listen_loop failing_update (completed_r1 # [failed_r2]) world0) =
     [ReceivedCompletion ''r1'' ''completed'',
      UpdatingDatabase ''r1'' ''generated/u1/r1.png'' ''https://mobiarty-assets/r1.png'',
      FailedToUpdateDatabase (DatabaseError ''connection lost''),
      ReceivedCompletion ''r2'' ''failed'',
      GenerationFailed ''r2'' ''Image generation failed'']"
proof -
  have call: "failing_update ''r1'' ''generated/u1/r1.png'' ''https://mobiarty-assets/r1.png''
        (world0\<lparr>logs := logs world0 @ [ReceivedCompletion ''r1'' ''completed'']\<rparr>) =
      (Some (DatabaseError ''connection lost''),
       world0\<lparr>logs := [ReceivedCompletion ''r1'' ''completed'',
         UpdatingDatabase ''r1'' ''generated/u1/r1.png'' ''https://mobiarty-assets/r1.png'']\<rparr>)"
    by (simp add: failing_update_def genRepo_down_def log_Printf_def world0_def)
  have run: "listen_loop failing_update (completed_r1 # [failed_r2]) world0 =
      foldl (\<lambda>w m. handle_message failing_update m w)
        (world0\<lparr>logs := [ReceivedCompletion ''r1'' ''completed'',
           UpdatingDatabase ''r1'' ''generated/u1/r1.png'' ''https://mobiarty-assets/r1.png'',
           FailedToUpdateDatabase (DatabaseError ''connection lost'')]\<rparr>) [failed_r2]"
    using listener_update_error_continues [OF Unmarshal_completed_r1, of failing_update world0
        "DatabaseError ''connection lost''" _ "[failed_r2]"] call
    by simp
  show ?thesis
    unfolding run
    by (simp add: handle_message_def Unmarshal_failed_r2 log_Printf_def world0_def)
qed

text \<open>
  Claim C3, as the code has it. The listener keeps no record of the requests it has
  handled. Whatever was delivered before, the message itself included, a completion
  with status \<^verbatim>\<open>completed\<close> makes the listener call the database update once more,
  with that completion's \<^verbatim>\<open>request_id\<close>, \<^verbatim>\<open>s3_key\<close> and \<^verbatim>\<open>s3_url\<close>.
\<close>

theorem listener_repeats_update_on_redelivery:
  assumes "json_Unmarshal msg = Inr completion"
    and "Status completion = ''completed''"
  shows "db_updates (logs (listen_loop UpdateGeneratedContentWithImage (history @ [msg]) w)) =
           db_updates (logs (listen_loop UpdateGeneratedContentWithImage history w)) @
             [(RequestID completion, S3Key completion, S3URL completion)]"
  using assms
  by (simp add: listen_loop_append handle_message_def UpdateGeneratedContentWithImage_def
      log_Printf_def db_updates_append Let_def)

theorem listener_repeats_update_on_redelivery_witness:
  "db_updates (logs (listen_loop UpdateGeneratedContentWithImage
                       ([completed_r1] @ [completed_r1]) world0)) =
     db_updates (logs (listen_loop UpdateGeneratedContentWithImage [completed_r1] world0)) @
       [(''r1'', ''generated/u1/r1.png'', ''https://mobiarty-assets/r1.png'')]"
  using listener_repeats_update_on_redelivery [OF Unmarshal_completed_r1, of "[completed_r1]" world0]
  by simp

text \<open>
  The same completion delivered twice is applied twice: the second delivery is not
  ignored.
\<close>

theorem listener_duplicate_counterexample:
  "db_updates (logs (StartCompletionListener
      [(''image_generation_complete'', completed_r1),
       (''image_generation_complete'', completed_r1)]
      world0))
   = [(''r1'', ''generated/u1/r1.png'', ''https://mobiarty-assets/r1.png''),
      (''r1'', ''generated/u1/r1.png'', ''https://mobiarty-assets/r1.png'')]"
  by (simp add: StartCompletionListener_def StartCompletionListenerWith_def rdb_Subscribe_def
      handle_message_def Unmarshal_completed_r1 UpdateGeneratedContentWithImage_def
      log_Printf_def world0_def)

end
